theory Spec2Isabelle
  imports Complex_Main "HOL-Library.Multiset"
begin

text \<open>
  A model of the stock predictor: the data loader (\<open>data-loader.js\<close>: parsing, returns,
  normalization, windows and the chronological split), the GRU model wrapper (\<open>gru.js\<close>:
  \<open>train\<close>, \<open>predict\<close>, \<open>evaluate\<close>) and the parts of the application (\<open>app.js\<close>) that
  reload the data and project prices. TensorFlow.js and the built-ins of the language are
  parameters of the model.
\<close>

section \<open>Numbers, errors and tensors\<close>

text \<open>
  JavaScript numbers are modelled as real numbers: rounding, overflow to Infinity and
  the value NaN are outside the model. Where the source can meet NaN (a price that does
  not parse, an invalid date, the square root of a negative number) the model uses an
  option type, with \<open>None\<close> for NaN. Every \<open>throw\<close> of the source is a constructor of
  \<open>error\<close>; an exception raised inside the TensorFlow.js library is \<open>External\<close> with its
  message.
\<close>

datatype error =
    NoDataAvailable
  | NotEnoughData
  | NoReturnsData
  | NormalizationParamsNotAvailable
  | InsufficientData nat
  | FailedToLoad error
  | ModelNotBuilt
  | TrainingDataNotProvided
  | ModelNotTrained
  | InputDataNotProvided
  | TestDataNotProvided
  | TypeError
  | External string

text \<open>
  \<open>tf.tensor3d(values, shape)\<close> and \<open>tf.tensor2d(values, shape)\<close> belong to the library;
  a tensor is modelled by the nested array and the shape the source hands over.
\<close>

datatype tensor =
    Tensor3d "real list list list" "int list"
  | Tensor2d "real list list" "int list"

section \<open>The data loader\<close>

record pricePoint =
  date :: string
  price :: real

record loader =
  data :: "pricePoint list option"
  normalizedData :: "real list option"
  X_train :: "tensor option"
  y_train :: "tensor option"
  X_test :: "tensor option"
  y_test :: "tensor option"
  min_v :: "real option"
  max_v :: "real option"
  dateLabels :: "string list"
  returns :: "real list"
  trainIndices :: "int list"
  testIndices :: "int list"

text \<open>The constructor: every field \<open>null\<close> or empty.\<close>

definition DataLoader_new :: loader where
  "DataLoader_new =
     \<lparr>data = None, normalizedData = None, X_train = None, y_train = None,
      X_test = None, y_test = None, min_v = None, max_v = None, dateLabels = [],
      returns = [], trainIndices = [], testIndices = []\<rparr>"

subsection \<open>Built-ins of the language\<close>

text \<open>
  \<open>parseFloat\<close> and the \<open>Date\<close> constructor are built-ins of the host; the model takes
  them as parameters. \<open>parseFloat_js\<close> gives \<open>None\<close> for NaN. \<open>newDate3 y m d\<close> is the time
  value of \<open>new Date(y, m - 1, d)\<close> for the three strings the source passes, and
  \<open>newDate1 str\<close> that of \<open>new Date(str)\<close>; \<open>None\<close> is an invalid date, whose time value is
  NaN.
\<close>

record builtins =
  parseFloat_js :: "string \<Rightarrow> real option"
  newDate3 :: "string \<Rightarrow> string \<Rightarrow> string \<Rightarrow> int option"
  newDate1 :: "string \<Rightarrow> int option"

text \<open>White space removed by \<open>String.prototype.trim\<close>, as far as 8-bit characters go.\<close>

definition is_space :: "char \<Rightarrow> bool" where
  "is_space c \<longleftrightarrow> c \<in> set [CHR '' '', CHR 0x09, CHR 0x0A, CHR 0x0B, CHR 0x0C, CHR 0x0D]"

definition trim :: "string \<Rightarrow> string" where
  "trim s = rev (dropWhile is_space (rev (dropWhile is_space s)))"

text \<open>\<open>s.split(c)\<close> for a one-character separator: the empty string gives one empty piece.\<close>

fun split_on :: "char \<Rightarrow> string \<Rightarrow> string list" where
  "split_on c [] = [[]]"
| "split_on c (x # xs) =
     (if x = c then [] # split_on c xs
      else (case split_on c xs of
              [] \<Rightarrow> [[x]]
            | w # ws \<Rightarrow> (x # w) # ws))"

text \<open>\<open>Array.prototype.slice(start, end)\<close>: negative indices count from the end.\<close>

definition js_slice :: "'a list \<Rightarrow> int \<Rightarrow> int \<Rightarrow> 'a list" where
  "js_slice xs start stop =
     (let n = int (length xs);
          k = (if start < 0 then max (n + start) 0 else min start n);
          final = (if stop < 0 then max (n + stop) 0 else min stop n)
      in take (nat (final - k)) (drop (nat k) xs))"

definition js_slice_from :: "'a list \<Rightarrow> int \<Rightarrow> 'a list" where
  "js_slice_from xs start = js_slice xs start (int (length xs))"

text \<open>
  \<open>Array.prototype.sort(compare)\<close> is a stable sort. For a consistent comparator its result
  is determined: the stable sorted arrangement. The model is the stable insertion sort; an
  element moves behind another one only when the comparator is positive, and a NaN
  comparison (\<open>None\<close>) counts as 0. With an inconsistent comparator the language leaves the
  order to the implementation, so statements about the order assume valid dates.
\<close>

fun sort_insert :: "('a \<Rightarrow> 'a \<Rightarrow> int option) \<Rightarrow> 'a \<Rightarrow> 'a list \<Rightarrow> 'a list" where
  "sort_insert cmp x [] = [x]"
| "sort_insert cmp x (y # ys) =
     (if (case cmp x y of None \<Rightarrow> False | Some v \<Rightarrow> 0 < v)
      then y # sort_insert cmp x ys
      else x # y # ys)"

definition array_sort :: "('a \<Rightarrow> 'a \<Rightarrow> int option) \<Rightarrow> 'a list \<Rightarrow> 'a list" where
  "array_sort cmp xs = foldr (sort_insert cmp) xs []"

text \<open>\<open>Math.min(...xs)\<close> and \<open>Math.max(...xs)\<close>; of no argument they are infinite (\<open>None\<close>).\<close>

fun Math_min :: "real list \<Rightarrow> real option" where
  "Math_min [] = None"
| "Math_min (x # xs) = Some (foldl min x xs)"

fun Math_max :: "real list \<Rightarrow> real option" where
  "Math_max [] = None"
| "Math_max (x # xs) = Some (foldl max x xs)"

subsection \<open>parseCSV and parseDate\<close>

definition parseDate :: "builtins \<Rightarrow> string \<Rightarrow> int option" where
  "parseDate env dateStr =
     (let parts = split_on CHR ''.'' dateStr
      in if length parts = 3 then newDate3 env (parts ! 2) (parts ! 1) (parts ! 0)
         else newDate1 env dateStr)"

text \<open>The body of the parsing loop for one line: the row pushed, or \<open>None\<close> when skipped.\<close>

definition parseLine :: "builtins \<Rightarrow> string \<Rightarrow> pricePoint option" where
  "parseLine env raw =
     (let line = trim raw
      in if line = [] then None
         else let parts = split_on CHR '';'' line
              in if 2 \<le> length parts
                 then (let dateStr = trim (parts ! 0)
                       in case parseFloat_js env (trim (parts ! 1)) of
                            None \<Rightarrow> None
                          | Some p \<Rightarrow>
                              if 0 < p then Some \<lparr>date = dateStr, price = p\<rparr> else None)
                 else None)"

text \<open>The rows kept, in file order; the first line is the header.\<close>

definition parsedRows :: "builtins \<Rightarrow> string \<Rightarrow> pricePoint list" where
  "parsedRows env content =
     List.map_filter (parseLine env) (drop 1 (split_on CHR 0x0A (trim content)))"

text \<open>The comparator of the sort: \<open>dateA - dateB\<close>, NaN when a date is invalid.\<close>

definition compareDates :: "builtins \<Rightarrow> pricePoint \<Rightarrow> pricePoint \<Rightarrow> int option" where
  "compareDates env a b =
     (case (parseDate env (date a), parseDate env (date b)) of
        (Some dateA, Some dateB) \<Rightarrow> Some (dateA - dateB)
      | _ \<Rightarrow> None)"

fun computeReturns :: "pricePoint list \<Rightarrow> real list" where
  "computeReturns (a # b # rest) =
     (price b - price a) / price a # computeReturns (b # rest)"
| "computeReturns _ = []"

text \<open>
  \<open>parseCSV\<close> assigns its fields and then throws when fewer than 65 rows were kept, so the
  result is the new state together with the error, if any.
\<close>

definition parseCSV :: "builtins \<Rightarrow> string \<Rightarrow> loader \<Rightarrow> loader \<times> error option" where
  "parseCSV env content s =
     (let parsedData = parsedRows env content;
          labels = map date parsedData;
          sorted_data = array_sort (compareDates env) parsedData;
          s' = s\<lparr>dateLabels := labels,
                 returns := computeReturns sorted_data,
                 data := Some sorted_data\<rparr>
      in (s', if length sorted_data < 65 then Some (InsufficientData (length sorted_data))
              else None))"

text \<open>
  \<open>loadCSVFromGitHub\<close>: the text fetched is a parameter (\<open>Inl\<close> when the request fails);
  every failure, also the one of \<open>parseCSV\<close>, is thrown again as a load failure.
\<close>

definition loadCSVFromGitHub ::
    "builtins \<Rightarrow> string + string \<Rightarrow> loader \<Rightarrow> loader \<times> error option" where
  "loadCSVFromGitHub env fetched s =
     (case fetched of
        Inl msg \<Rightarrow> (s, Some (FailedToLoad (External msg)))
      | Inr content \<Rightarrow>
          (case parseCSV env content s of
             (s', None) \<Rightarrow> (s', None)
           | (s', Some e) \<Rightarrow> (s', Some (FailedToLoad e))))"

subsection \<open>normalizeReturns and denormalize\<close>

text \<open>\<open>this.max - this.min || 1\<close>: the difference, or 1 when the difference is 0.\<close>

definition range_of :: "real \<Rightarrow> real \<Rightarrow> real" where
  "range_of mn mx = (if mx - mn = 0 then 1 else mx - mn)"

text \<open>The function mapped over the returns.\<close>

definition normalizeValue :: "real \<Rightarrow> real \<Rightarrow> real \<Rightarrow> real" where
  "normalizeValue mn mx ret = (ret - mn) / range_of mn mx"

definition normalizeReturns :: "loader \<Rightarrow> error + loader" where
  "normalizeReturns s =
     (if returns s = [] then Inl NoReturnsData
      else (case (Math_min (returns s), Math_max (returns s)) of
              (Some mn, Some mx) \<Rightarrow>
                Inr (s\<lparr>min_v := Some mn, max_v := Some mx,
                       normalizedData := Some (map (normalizeValue mn mx) (returns s))\<rparr>)
            | _ \<Rightarrow> Inl NoReturnsData))"

definition denormalize :: "loader \<Rightarrow> real \<Rightarrow> error + real" where
  "denormalize s v =
     (case (min_v s, max_v s) of
        (Some mn, Some mx) \<Rightarrow> Inr (v * range_of mn mx + mn)
      | _ \<Rightarrow> Inl NormalizationParamsNotAvailable)"

subsection \<open>prepareData\<close>

text \<open>\<open>Array.from({length: n}, (_, i) => f(i))\<close>; a length that is not positive gives \<open>[]\<close>.\<close>

definition array_from :: "int \<Rightarrow> (int \<Rightarrow> 'a) \<Rightarrow> 'a list" where
  "array_from n f = map (\<lambda>i. f (int i)) [0..<nat n]"

text \<open>The two arrays filled by the loop \<open>for (let i = 0; i < totalSamples; i++)\<close>.\<close>

definition sequencesOf :: "real list \<Rightarrow> int \<Rightarrow> nat \<Rightarrow> real list list" where
  "sequencesOf nd totalSamples windowSize =
     map (\<lambda>i. js_slice nd (int i) (int i + int windowSize)) [0..<nat totalSamples]"

definition targetsOf :: "real list \<Rightarrow> int \<Rightarrow> nat \<Rightarrow> nat \<Rightarrow> real list list" where
  "targetsOf nd totalSamples windowSize predictionHorizon =
     map (\<lambda>i. js_slice nd (int i + int windowSize)
                  (int i + int windowSize + int predictionHorizon))
       [0..<nat totalSamples]"

definition totalSamplesOf :: "loader \<Rightarrow> nat \<Rightarrow> nat \<Rightarrow> int" where
  "totalSamplesOf s windowSize predictionHorizon =
     int (length (returns s)) - int windowSize - int predictionHorizon + 1"

text \<open>\<open>Math.floor(sequences.length * (1 - testSplit))\<close>.\<close>

definition splitIndex :: "nat \<Rightarrow> real \<Rightarrow> int" where
  "splitIndex n testSplit = \<lfloor>real n * (1 - testSplit)\<rfloor>"

definition prepareData :: "nat \<Rightarrow> nat \<Rightarrow> real \<Rightarrow> loader \<Rightarrow> error + loader" where
  "prepareData windowSize predictionHorizon testSplit s =
     (if returns s = [] then Inl NoDataAvailable
      else let totalSamples = totalSamplesOf s windowSize predictionHorizon
           in if totalSamples \<le> 0 then Inl NotEnoughData
              else (case normalizeReturns s of
                      Inl e \<Rightarrow> Inl e
                    | Inr s1 \<Rightarrow>
                        (case normalizedData s1 of
                           None \<Rightarrow> Inl TypeError
                         | Some nd \<Rightarrow>
                             (let sequences = sequencesOf nd totalSamples windowSize;
                                  targets = targetsOf nd totalSamples windowSize
                                              predictionHorizon;
                                  n = int (length sequences);
                                  splitIdx = splitIndex (length sequences) testSplit;
                                  trainSequences = js_slice sequences 0 splitIdx;
                                  testSequences = js_slice_from sequences splitIdx;
                                  trainSequences3D =
                                    map (map (\<lambda>val. [val])) trainSequences;
                                  testSequences3D =
                                    map (map (\<lambda>val. [val])) testSequences
                              in Inr (s1\<lparr>trainIndices := array_from splitIdx (\<lambda>i. i),
                                         testIndices :=
                                           array_from (n - splitIdx) (\<lambda>i. i + splitIdx),
                                         X_train :=
                                           Some (Tensor3d trainSequences3D
                                                   [splitIdx, int windowSize, 1]),
                                         y_train :=
                                           Some (Tensor2d (js_slice targets 0 splitIdx)
                                                   [splitIdx, int predictionHorizon]),
                                         X_test :=
                                           Some (Tensor3d testSequences3D
                                                   [n - splitIdx, int windowSize, 1]),
                                         y_test :=
                                           Some (Tensor2d (js_slice_from targets splitIdx)
                                                   [n - splitIdx,
                                                    int predictionHorizon])\<rparr>)))))"

subsection \<open>getHistoricalData and dispose\<close>



text \<open>\<open>dispose\<close> releases the four tensors and assigns \<open>null\<close> to five fields.\<close>

definition dispose :: "loader \<Rightarrow> loader" where
  "dispose s =
     s\<lparr>X_train := None, y_train := None, X_test := None, y_test := None,
       normalizedData := None\<rparr>"

section \<open>The GRU model\<close>

text \<open>
  The network behind \<open>this.model\<close> is a black box of type \<open>'m\<close>, a training history has
  type \<open>'h\<close>. The calls into the library are parameters of the methods: each gives its
  result, or \<open>Inl\<close> with the message of the exception it raises.
\<close>

record ('m, 'h) gru =
  windowSize :: nat
  predictionHorizon :: nat
  model :: "'m option"
  trainingHistory :: "'h option"
  isTrained :: bool

definition GRUModel_new :: "nat \<Rightarrow> nat \<Rightarrow> ('m, 'h) gru" where
  "GRUModel_new w h =
     \<lparr>windowSize = w, predictionHorizon = h, model = None, trainingHistory = None,
      isTrained = False\<rparr>"

definition buildModel :: "(nat \<Rightarrow> nat \<Rightarrow> 'm) \<Rightarrow> ('m, 'h) gru \<Rightarrow> ('m, 'h) gru" where
  "buildModel tf_sequential g =
     g\<lparr>model := Some (tf_sequential (windowSize g) (predictionHorizon g))\<rparr>"

type_synonym ('m, 'h) fit =
  "'m \<Rightarrow> tensor \<Rightarrow> tensor \<Rightarrow> (tensor \<times> tensor) option \<Rightarrow> real \<Rightarrow> real \<Rightarrow> string + 'h"

text \<open>\<open>X_val && y_val ? [X_val, y_val] : undefined\<close>.\<close>

definition validationDataOf :: "tensor option \<Rightarrow> tensor option \<Rightarrow> (tensor \<times> tensor) option" where
  "validationDataOf X_val y_val =
     (case (X_val, y_val) of
        (Some xv, Some yv) \<Rightarrow> Some (xv, yv)
      | _ \<Rightarrow> None)"

text \<open>
  \<open>train\<close>: the result of the call and the state it leaves. The \<open>catch\<close> block logs the
  error and throws it again.
\<close>

definition train ::
    "('m, 'h) fit \<Rightarrow> tensor option \<Rightarrow> tensor option \<Rightarrow> tensor option \<Rightarrow> tensor option \<Rightarrow>
     real \<Rightarrow> real \<Rightarrow> ('m, 'h) gru \<Rightarrow> (error + 'h) \<times> ('m, 'h) gru" where
  "train fit X_tr y_tr X_val y_val epochs batchSize g =
     (case model g of
        None \<Rightarrow> (Inl ModelNotBuilt, g)
      | Some m \<Rightarrow>
          (case (X_tr, y_tr) of
             (Some X, Some y) \<Rightarrow>
               (let validationData = validationDataOf X_val y_val
                in case fit m X y validationData epochs batchSize of
                     Inr history \<Rightarrow>
                       (Inr history,
                        g\<lparr>trainingHistory := Some history, isTrained := True\<rparr>)
                   | Inl msg \<Rightarrow> (Inl (External msg), g))
           | _ \<Rightarrow> (Inl TrainingDataNotProvided, g)))"

definition predict ::
    "('m \<Rightarrow> tensor \<Rightarrow> string + real list list) \<Rightarrow> tensor option \<Rightarrow> ('m, 'h) gru \<Rightarrow>
     error + real list list" where
  "predict tf_predict X g =
     (case model g of
        None \<Rightarrow> Inl ModelNotTrained
      | Some m \<Rightarrow>
          if \<not> isTrained g then Inl ModelNotTrained
          else (case X of
                  None \<Rightarrow> Inl InputDataNotProvided
                | Some x \<Rightarrow>
                    (case tf_predict m x of
                       Inr predictionsArray \<Rightarrow> Inr predictionsArray
                     | Inl msg \<Rightarrow> Inl (External msg))))"

text \<open>\<open>Math.sqrt\<close>: NaN (\<open>None\<close>) below zero.\<close>

definition Math_sqrt :: "real \<Rightarrow> real option" where
  "Math_sqrt x = (if 0 \<le> x then Some (sqrt x) else None)"

record metrics =
  loss :: real
  mse :: real
  rmse :: "real option"

text \<open>
  \<open>this.model.evaluate\<close> gives an array of scalars, the loss first and the metric second;
  reading a missing entry raises a type error, which the \<open>catch\<close> block throws again.
\<close>

definition evaluate ::
    "('m \<Rightarrow> tensor \<Rightarrow> tensor \<Rightarrow> string + real list) \<Rightarrow> tensor option \<Rightarrow> tensor option \<Rightarrow>
     ('m, 'h) gru \<Rightarrow> error + metrics" where
  "evaluate tf_evaluate X_te y_te g =
     (case model g of
        None \<Rightarrow> Inl ModelNotTrained
      | Some m \<Rightarrow>
          if \<not> isTrained g then Inl ModelNotTrained
          else (case (X_te, y_te) of
                  (Some X, Some y) \<Rightarrow>
                    (case tf_evaluate m X y of
                       Inl msg \<Rightarrow> Inl (External msg)
                     | Inr evaluation \<Rightarrow>
                         (case evaluation of
                            l # e # _ \<Rightarrow> Inr \<lparr>loss = l, mse = e, rmse = Math_sqrt e\<rparr>
                          | _ \<Rightarrow> Inl TypeError))
                | _ \<Rightarrow> Inl TestDataNotProvided))"

definition gru_dispose :: "('m, 'h) gru \<Rightarrow> ('m, 'h) gru" where
  "gru_dispose g = g\<lparr>model := None, trainingHistory := None, isTrained := False\<rparr>"

text \<open>
  A sequence of calls on one model object. A call of \<open>train\<close> carries the outcome of the
  library's \<open>fit\<close>, a call of \<open>buildModel\<close> the network the library creates.
\<close>

datatype ('m, 'h) gru_call =
    CallBuildModel 'm
  | CallTrain "tensor option" "tensor option" "string + 'h"
  | CallDispose

definition run_call :: "('m, 'h) gru_call \<Rightarrow> ('m, 'h) gru \<Rightarrow> ('m, 'h) gru" where
  "run_call c g =
     (case c of
        CallBuildModel m \<Rightarrow> buildModel (\<lambda>_ _. m) g
      | CallTrain X y outcome \<Rightarrow> snd (train (\<lambda>_ _ _ _ _ _. outcome) X y None None 50 32 g)
      | CallDispose \<Rightarrow> gru_dispose g)"

definition call_succeeds_as_train :: "('m, 'h) gru_call \<Rightarrow> ('m, 'h) gru \<Rightarrow> bool" where
  "call_succeeds_as_train c g =
     (case c of
        CallTrain X y outcome \<Rightarrow>
          (case fst (train (\<lambda>_ _ _ _ _ _. outcome) X y None None 50 32 g) of
             Inr _ \<Rightarrow> True | Inl _ \<Rightarrow> False)
      | _ \<Rightarrow> False)"

fun run_calls :: "('m, 'h) gru_call list \<Rightarrow> ('m, 'h) gru \<Rightarrow> ('m, 'h) gru" where
  "run_calls [] g = g"
| "run_calls (c # cs) g = run_calls cs (run_call c g)"

fun some_train_succeeded :: "('m, 'h) gru_call list \<Rightarrow> ('m, 'h) gru \<Rightarrow> bool" where
  "some_train_succeeded [] g = False"
| "some_train_succeeded (c # cs) g =
     (call_succeeds_as_train c g \<or> some_train_succeeded cs (run_call c g))"

section \<open>The application\<close>

record predictionCard =
  day :: nat
  predictedReturn :: real
  expectedPrice :: real

text \<open>
  The \<open>forEach\<close> of \<open>displayPredictions\<close>, with the running \<open>cumulativePrice\<close>; a card holds
  the numbers the source formats into the page.
\<close>

fun predictionCards :: "real \<Rightarrow> nat \<Rightarrow> real list \<Rightarrow> predictionCard list" where
  "predictionCards cumulativePrice index [] = []"
| "predictionCards cumulativePrice index (pred # rest) =
     (let priceChange = cumulativePrice * pred;
          newPrice = cumulativePrice + priceChange
      in \<lparr>day = index + 1, predictedReturn = pred, expectedPrice = newPrice\<rparr>
         # predictionCards newPrice (index + 1) rest)"

text \<open>Reading the last row of no data, or the predictions when \<open>null\<close>, is a type error.\<close>

definition displayPredictions :: "loader \<Rightarrow> real list option \<Rightarrow> error + predictionCard list" where
  "displayPredictions dl predictions =
     (case data dl of
        None \<Rightarrow> Inl TypeError
      | Some d \<Rightarrow>
          if d = [] then Inl TypeError
          else (case predictions of
                  None \<Rightarrow> Inl TypeError
                | Some ps \<Rightarrow> Inr (predictionCards (price (last d)) 0 ps)))"

record ('m, 'h) app =
  app_dataLoader :: loader
  app_model :: "('m, 'h) gru"
  app_predictions :: "real list option"

text \<open>
  \<open>loadData\<close>, as in the two application files that load from GitHub: clear, load,
  prepare with the default parameters (60, 5 and 0.2). An error is caught and shown as the
  status, so the result is the new state and the error shown, if any. The third application
  file differs in where the text comes from: it reads a file picked by the user, through a
  loader method \<open>loadCSV\<close> that the loader source does not define.
\<close>

definition loadData ::
    "builtins \<Rightarrow> string + string \<Rightarrow> ('m, 'h) app \<Rightarrow> ('m, 'h) app \<times> error option" where
  "loadData env fetched a =
     (let a1 = a\<lparr>app_dataLoader := dispose (app_dataLoader a),
                 app_model := gru_dispose (app_model a),
                 app_predictions := None\<rparr>
      in case loadCSVFromGitHub env fetched (app_dataLoader a1) of
           (dl, Some e) \<Rightarrow> (a1\<lparr>app_dataLoader := dl\<rparr>, Some e)
         | (dl, None) \<Rightarrow>
             (case prepareData 60 5 (1 / 5) dl of
                Inl e \<Rightarrow> (a1\<lparr>app_dataLoader := dl\<rparr>, Some e)
              | Inr dl' \<Rightarrow> (a1\<lparr>app_dataLoader := dl'\<rparr>, None)))"

section \<open>Notions used to state the properties\<close>



section \<open>A concrete host for the examples\<close>

text \<open>
  The examples run on a host whose local time is UTC. \<open>decimal_value\<close> reads a non-empty
  string of decimal digits, on which it agrees with \<open>parseFloat\<close> and with the conversion
  to a number that \<open>Date\<close> applies to its arguments; the examples use no other numerals.
  \<open>utc_newDate3\<close> follows the language's \<open>MakeDay\<close> and \<open>MakeDate\<close>: a year from 0 to 99
  counts from 1900, months beyond the year carry over, and the day count is that of the
  proleptic Gregorian calendar, 0 on 1 January 1970. Every date in the examples that has not
  three parts is \<open>x\<close>, which is not a date on any host.
\<close>

fun digits_value :: "nat \<Rightarrow> string \<Rightarrow> nat option" where
  "digits_value acc [] = Some acc"
| "digits_value acc (c # cs) =
     (let n = (of_char c :: nat)
      in if 48 \<le> n \<and> n \<le> 57 then digits_value (10 * acc + (n - 48)) cs else None)"

definition decimal_value :: "string \<Rightarrow> nat option" where
  "decimal_value s = (if s = [] then None else digits_value 0 s)"

definition days_from_civil :: "int \<Rightarrow> int \<Rightarrow> int \<Rightarrow> int" where
  "days_from_civil y m d =
     (let y' = (if m \<le> 2 then y - 1 else y);
          era = y' div 400;
          yoe = y' - era * 400;
          doy = (153 * (if 2 < m then m - 3 else m + 9) + 2) div 5 + d - 1;
          doe = yoe * 365 + yoe div 4 - yoe div 100 + doy
      in era * 146097 + doe - 719468)"

definition utc_newDate3 :: "string \<Rightarrow> string \<Rightarrow> string \<Rightarrow> int option" where
  "utc_newDate3 y m d =
     (case (decimal_value y, decimal_value m, decimal_value d) of
        (Some yy, Some mm, Some dd) \<Rightarrow>
          (let yr = (if yy \<le> 99 then 1900 + int yy else int yy);
               month = int mm - 1;
               ym = yr + month div 12;
               mn = month mod 12;
               tv = (days_from_civil ym (mn + 1) 1 + int dd - 1) * 86400000
           in if \<bar>tv\<bar> \<le> 8640000000000000 then Some tv else None)
      | _ \<Rightarrow> None)"

definition utc_host :: builtins where
  "utc_host =
     \<lparr>parseFloat_js = (\<lambda>s. map_option real (decimal_value s)),
      newDate3 = utc_newDate3,
      newDate1 = (\<lambda>s. None)\<rparr>"

text \<open>A text file given by its lines.\<close>

definition lines_text :: "string list \<Rightarrow> string" where
  "lines_text ls = concat (map (\<lambda>l. l @ [CHR 0x0A]) ls)"

section \<open>Example data\<close>

text \<open>
  A small file: the rows are out of date order, one row has no price, one line is blank
  and one has blanks around its fields. The prices are 1, 2, 6, 24, 120 and 720, so the
  returns are 1 to 5. \<open>example_prepared\<close> is the state that \<open>prepareData(2, 1, 0.2)\<close> leaves.
\<close>

definition example_csv :: string where
  "example_csv =
     lines_text [''date;price'', ''03.01.2020;6'', ''bad-date;abc'', ''01.01.2020;1'',
                 ''02.01.2020;2'', ''04.01.2020;24'', '' 05.01.2020 ; 120 '', '''',
                 ''06.01.2020;720'']"

definition example_loaded :: loader where
  "example_loaded = fst (parseCSV utc_host example_csv DataLoader_new)"

definition example_rows :: "pricePoint list" where
  "example_rows =
     [\<lparr>date = ''01.01.2020'', price = 1\<rparr>, \<lparr>date = ''02.01.2020'', price = 2\<rparr>,
      \<lparr>date = ''03.01.2020'', price = 6\<rparr>, \<lparr>date = ''04.01.2020'', price = 24\<rparr>,
      \<lparr>date = ''05.01.2020'', price = 120\<rparr>, \<lparr>date = ''06.01.2020'', price = 720\<rparr>]"

definition example_prepared :: loader where
  "example_prepared =
     example_loaded
       \<lparr>min_v := Some 1, max_v := Some 5,
        normalizedData := Some [0, 1 / 4, 1 / 2, 3 / 4, 1],
        trainIndices := [0, 1], testIndices := [2],
        X_train := Some (Tensor3d [[[0], [1 / 4]], [[1 / 4], [1 / 2]]] [2, 2, 1]),
        y_train := Some (Tensor2d [[1 / 2], [3 / 4]] [2, 1]),
        X_test := Some (Tensor3d [[[1 / 2], [3 / 4]]] [1, 2, 1]),
        y_test := Some (Tensor2d [[1]] [1, 1])\<rparr>"

text \<open>
  A model object built for windows of 2 and a horizon of 1, a library \<open>fit\<close> that rejects
  and one that resolves, the model after a successful training, and a sequence of calls in
  which no training succeeds: one \<open>fit\<close> is rejected, one call has no data.
\<close>

definition example_model :: "(nat, nat) gru" where
  "example_model = buildModel (\<lambda>_ _. 0) (GRUModel_new 2 1)"


definition accepting_fit :: "(nat, nat) fit" where
  "accepting_fit = (\<lambda>_ _ _ _ _ _. Inr 7)"

definition example_trained :: "(nat, nat) gru" where
  "example_trained =
     snd (train accepting_fit (X_train example_prepared) (y_train example_prepared)
            (X_test example_prepared) (y_test example_prepared) 50 32 example_model)"

definition example_calls :: "(nat, nat) gru_call list" where
  "example_calls =
     [CallBuildModel 0,
      CallTrain (X_train example_prepared) (y_train example_prepared) (Inl ''fit rejected''),
      CallTrain None None (Inr 7),
      CallDispose,
      CallBuildModel 1]"

text \<open>
  Further files: a second data set, a file with one date twice, a file with a date that
  does not parse, and a file of 66 rows dated 1 January 2000 to 2065 with prices 100 to
  165, the shortest that \<open>loadData\<close> accepts. \<open>example_app\<close> is an application that has
  loaded and prepared the first example and trained its model.
\<close>

definition example_csv_next :: string where
  "example_csv_next =
     lines_text [''date;price'', ''01.02.2020;10'', ''02.02.2020;20'', ''03.02.2020;30'',
                 ''04.02.2020;60'']"



definition two_digits :: "nat \<Rightarrow> string" where
  "two_digits i = [char_of (48 + i div 10), char_of (48 + i mod 10)]"

definition long_row :: "nat \<Rightarrow> string" where
  "long_row i = ''01.01.20'' @ two_digits i @ '';1'' @ two_digits i"

definition long_csv :: string where
  "long_csv = lines_text (''date;price'' # map long_row [0..<66])"

definition example_app :: "(nat, nat) app" where
  "example_app =
     \<lparr>app_dataLoader = example_prepared, app_model = example_trained,
      app_predictions = Some [1, 2]\<rparr>"

section \<open>Auxiliary facts\<close>

lemma foldl_min_Min: "foldl min (x::real) xs = Min (set (x # xs))"
proof -
  have "(\<lambda>a s. min s a) = (min :: real \<Rightarrow> real \<Rightarrow> real)"
    by (intro ext) (simp add: min.commute)
  moreover have "Min (set (x # xs)) = fold min xs x"
    by (rule Min.set_eq_fold)
  ultimately show ?thesis
    by (simp add: foldl_conv_fold)
qed

lemma foldl_max_Max: "foldl max (x::real) xs = Max (set (x # xs))"
proof -
  have "(\<lambda>a s. max s a) = (max :: real \<Rightarrow> real \<Rightarrow> real)"
    by (intro ext) (simp add: max.commute)
  moreover have "Max (set (x # xs)) = fold max xs x"
    by (rule Max.set_eq_fold)
  ultimately show ?thesis
    by (simp add: foldl_conv_fold)
qed

lemma range_of_nonzero: "range_of mn mx \<noteq> 0"
  by (simp add: range_of_def)

lemma denorm_norm: "normalizeValue mn mx x * range_of mn mx + mn = x"
  by (simp add: normalizeValue_def range_of_nonzero)

lemma pc_return:
  "k < length ps \<Longrightarrow> predictedReturn (predictionCards c i ps ! k) = ps ! k"
proof (induction ps arbitrary: c i k)
  case Nil
  then show ?case by simp
next
  case (Cons p ps)
  then show ?case by (cases k) (simp_all add: Let_def)
qed

lemma pc_len: "length (predictionCards c i ps) = length ps"
  by (induction ps arbitrary: c i) (auto simp: Let_def)

lemma pc_step:
  "k < length ps \<Longrightarrow>
   expectedPrice (predictionCards c i ps ! k) =
     (if k = 0 then c else expectedPrice (predictionCards c i ps ! (k - 1))) * (1 + ps ! k)"
proof (induction ps arbitrary: c i k)
  case Nil
  then show ?case by simp
next
  case (Cons p ps)
  show ?case
  proof (cases k)
    case 0
    then show ?thesis by (simp add: Let_def algebra_simps)
  next
    case (Suc j)
    with Cons.prems have j: "j < length ps" by simp
    from Cons.IH[OF j, of "c + c * p" "i + 1"] Suc show ?thesis
      by (cases j) (simp_all add: Let_def)
  qed
qed

lemma train_Inl_state: "fst (train fit X Y Xv Yv ep bs g) = Inl e \<Longrightarrow> snd (train fit X Y Xv Yv ep bs g) = g"
  by (auto simp: train_def Let_def split: option.splits sum.splits)

lemma run_call_untrained:
  "\<not> isTrained g \<Longrightarrow> \<not> call_succeeds_as_train c g \<Longrightarrow> \<not> isTrained (run_call c g)"
  by (cases c)
     (auto simp: run_call_def call_succeeds_as_train_def buildModel_def gru_dispose_def
        train_def Let_def split: option.splits sum.splits)

lemma run_calls_untrained:
  "\<not> isTrained g \<Longrightarrow> \<not> some_train_succeeded cs g \<Longrightarrow> \<not> isTrained (run_calls cs g)"
  by (induction cs arbitrary: g) (auto simp: run_call_untrained)

lemma predict_untrained: "\<not> isTrained g \<Longrightarrow> predict tfp X g = Inl ModelNotTrained"
  by (simp add: predict_def split: option.splits)

lemma js_slice_nat: "js_slice xs (int i) (int i + int w) = take w (drop i xs)"
  by (auto simp: js_slice_def Let_def min_def nat_diff_distrib' nat_add_distrib)

lemma js_slice_split: "js_slice xs 0 k @ js_slice_from xs k = xs"
  by (auto simp: js_slice_def js_slice_from_def Let_def min_def max_def nat_diff_distrib')

lemma js_slice_prefix:
  "js_slice xs 0 k = take (nat (if k < 0 then int (length xs) + k else k)) xs"
  by (auto simp: js_slice_def Let_def min_def max_def)

lemma js_slice_suffix:
  "js_slice_from xs k = drop (nat (if k < 0 then int (length xs) + k else k)) xs"
  by (auto simp: js_slice_def js_slice_from_def Let_def min_def max_def nat_diff_distrib')

lemma length_sequencesOf: "length (sequencesOf nd tot w) = nat tot"
  by (simp add: sequencesOf_def)

lemma length_targetsOf: "length (targetsOf nd tot w h) = nat tot"
  by (simp add: targetsOf_def)

lemma nth_sequencesOf: "i < nat tot \<Longrightarrow> sequencesOf nd tot w ! i = take w (drop i nd)"
  by (simp add: sequencesOf_def js_slice_nat)


lemma splitIndex_bounds:
  assumes "0 \<le> t" "t \<le> 1"
  shows "0 \<le> splitIndex n t \<and> splitIndex n t \<le> int n"
proof -
  have "0 \<le> real n * (1 - t)" using assms by simp
  moreover have "real n * (1 - t) \<le> real n" using assms by (simp add: mult_left_le)
  ultimately show ?thesis
    unfolding splitIndex_def by (simp add: floor_le_iff le_floor_iff) 
qed

lemma normalizeReturns_ok:
  assumes "returns s \<noteq> []"
  shows "\<exists>mn mx. Math_min (returns s) = Some mn \<and> Math_max (returns s) = Some mx
     \<and> normalizeReturns s =
         Inr (s\<lparr>min_v := Some mn, max_v := Some mx,
                normalizedData := Some (map (normalizeValue mn mx) (returns s))\<rparr>)"
proof -
  obtain r rs where "returns s = r # rs" using assms by (cases "returns s") auto
  then show ?thesis by (simp add: normalizeReturns_def)
qed

lemma prepareData_success:
  assumes ne: "returns s \<noteq> []" and pos: "0 < totalSamplesOf s W H"
  shows "\<exists>mn mx. Math_min (returns s) = Some mn \<and> Math_max (returns s) = Some mx \<and>
     (let tot = totalSamplesOf s W H;
          nd = map (normalizeValue mn mx) (returns s);
          seqs = sequencesOf nd tot W;
          tgts = targetsOf nd tot W H;
          k = splitIndex (nat tot) t
      in prepareData W H t s =
           Inr (s\<lparr>min_v := Some mn, max_v := Some mx, normalizedData := Some nd,
                  trainIndices := array_from k (\<lambda>i. i),
                  testIndices := array_from (tot - k) (\<lambda>i. i + k),
                  X_train := Some (Tensor3d (map (map (\<lambda>v. [v])) (js_slice seqs 0 k))
                                     [k, int W, 1]),
                  y_train := Some (Tensor2d (js_slice tgts 0 k) [k, int H]),
                  X_test := Some (Tensor3d (map (map (\<lambda>v. [v])) (js_slice_from seqs k))
                                    [tot - k, int W, 1]),
                  y_test := Some (Tensor2d (js_slice_from tgts k) [tot - k, int H])\<rparr>))"
proof -
  from normalizeReturns_ok[OF ne] obtain mn mx where
    mm: "Math_min (returns s) = Some mn" "Math_max (returns s) = Some mx" and
    nr: "normalizeReturns s =
         Inr (s\<lparr>min_v := Some mn, max_v := Some mx,
                normalizedData := Some (map (normalizeValue mn mx) (returns s))\<rparr>)"
    by blast
  have "\<not> totalSamplesOf s W H \<le> 0" using pos by simp
  then show ?thesis
    using ne mm pos
    by (simp add: prepareData_def nr Let_def length_sequencesOf)
qed


lemma prepareData_Inr_D:
  "prepareData W H t s = Inr s' \<Longrightarrow> returns s \<noteq> [] \<and> 0 < totalSamplesOf s W H"
  by (auto simp: prepareData_def Let_def split: if_splits)


lemma array_from_id: "array_from k (\<lambda>i. i) = map int [0..<nat k]"
  by (simp add: array_from_def)

lemma array_from_shift: "0 \<le> k \<Longrightarrow> array_from (m - k) (\<lambda>i. i + k) = map int [nat k..<nat m]"
proof -
  assume k: "0 \<le> k"
  have "[nat k..<nat m] = map (\<lambda>i. i + nat k) [0..<nat m - nat k]"
    by (cases "nat k \<le> nat m") (simp_all add: map_add_upt)
  then have "map int [nat k..<nat m] = map int (map (\<lambda>i. i + nat k) [0..<nat m - nat k])"
    by simp
  also have "\<dots> = map (\<lambda>i. int i + k) [0..<nat m - nat k]"
    using k by (simp add: o_def)
  also have "nat m - nat k = nat (m - k)"
    using k by (simp add: nat_diff_distrib')
  finally show ?thesis by (simp add: array_from_def)
qed

lemma indices_ordered:
  "i \<in> set (array_from k (\<lambda>i. i)) \<Longrightarrow> j \<in> set (array_from m (\<lambda>i. i + k)) \<Longrightarrow> i < j"
  by (auto simp: array_from_def)

lemma mset_sort_insert: "mset (sort_insert cmp x ys) = add_mset x (mset ys)"
  by (induction ys) auto

lemma mset_array_sort: "mset (array_sort cmp xs) = mset xs"
  by (induction xs) (auto simp: array_sort_def mset_sort_insert)



lemma length_array_sort: "length (array_sort cmp xs) = length xs"
  using mset_array_sort[of cmp xs] by (metis size_mset)






lemma parseCSV_fields:
  "parseCSV env content s =
     (s\<lparr>dateLabels := map date (parsedRows env content),
        returns := computeReturns (array_sort (compareDates env) (parsedRows env content)),
        data := Some (array_sort (compareDates env) (parsedRows env content))\<rparr>,
      if length (parsedRows env content) < 65
      then Some (InsufficientData (length (parsedRows env content))) else None)"
  by (simp add: parseCSV_def Let_def length_array_sort)

subsection \<open>The example file, evaluated\<close>

lemmas eval_parse =
  parsedRows_def lines_text_def trim_def is_space_def List.map_filter_def parseLine_def
  Let_def utc_host_def decimal_value_def

lemmas eval_date =
  parseDate_def utc_host_def utc_newDate3_def decimal_value_def days_from_civil_def Let_def

lemma example_parsedRows:
  "parsedRows utc_host example_csv =
     [\<lparr>date = ''03.01.2020'', price = 6\<rparr>, \<lparr>date = ''01.01.2020'', price = 1\<rparr>,
      \<lparr>date = ''02.01.2020'', price = 2\<rparr>, \<lparr>date = ''04.01.2020'', price = 24\<rparr>,
      \<lparr>date = ''05.01.2020'', price = 120\<rparr>, \<lparr>date = ''06.01.2020'', price = 720\<rparr>]"
  by (simp add: example_csv_def eval_parse)

lemma example_dates:
  "parseDate utc_host ''01.01.2020'' = Some 1577836800000"
  "parseDate utc_host ''02.01.2020'' = Some 1577923200000"
  "parseDate utc_host ''03.01.2020'' = Some 1578009600000"
  "parseDate utc_host ''04.01.2020'' = Some 1578096000000"
  "parseDate utc_host ''05.01.2020'' = Some 1578182400000"
  "parseDate utc_host ''06.01.2020'' = Some 1578268800000"
  "parseDate utc_host ''x'' = None"
  by (simp_all add: eval_date)

lemma example_sorted:
  "array_sort (compareDates utc_host) (parsedRows utc_host example_csv) = example_rows"
  by (simp add: example_parsedRows array_sort_def compareDates_def example_dates example_rows_def)

lemma example_loaded_eq:
  "example_loaded =
     DataLoader_new\<lparr>dateLabels := [''03.01.2020'', ''01.01.2020'', ''02.01.2020'', ''04.01.2020'',
                                       ''05.01.2020'', ''06.01.2020''],
                     returns := [1, 2, 3, 4, 5],
                     data := Some example_rows\<rparr>"
  unfolding example_loaded_def parseCSV_fields
  by (simp add: example_sorted) (simp add: example_parsedRows example_rows_def)

lemma example_returns: "returns example_loaded = [1, 2, 3, 4, 5]"
  by (simp add: example_loaded_eq)

lemma example_normalize:
  "normalizeReturns example_loaded =
     Inr (example_loaded\<lparr>min_v := Some 1, max_v := Some 5,
                          normalizedData := Some [0, 1 / 4, 1 / 2, 3 / 4, 1]\<rparr>)"
  by (simp add: normalizeReturns_def example_returns normalizeValue_def range_of_def)

lemma example_split: "splitIndex (Suc (Suc (Suc 0))) (1 / 5) = 2"
  by (simp add: splitIndex_def)

lemma example_windows:
  "sequencesOf [0, 1 / 4, 1 / 2, 3 / 4, 1] 3 2 = [[0, 1 / 4], [1 / 4, 1 / 2], [1 / 2, 3 / 4]]"
  "targetsOf [0, 1 / 4, 1 / 2, 3 / 4, 1] 3 2 (Suc 0) = [[1 / 2], [3 / 4], [1 :: real]]"
  by (simp_all add: sequencesOf_def targetsOf_def js_slice_def upt_conv_Cons numeral_3_eq_3)

lemma example_indices:
  "array_from 2 (\<lambda>i. i) = [0, 1]"
  "array_from 1 (\<lambda>i. i + 2) = [2]"
  by (simp_all add: array_from_def upt_conv_Cons numeral_2_eq_2)

lemma example_slices:
  "js_slice [a, b, c] 0 2 = [a, b]"
  "js_slice_from [a, b, c] 2 = [c]"
  by (simp_all add: js_slice_def js_slice_from_def)

lemma example_prepareData: "prepareData 2 1 (1 / 5) example_loaded = Inr example_prepared"
  by (simp add: prepareData_def example_returns totalSamplesOf_def example_normalize Let_def
        example_windows example_split example_indices example_slices example_prepared_def)

lemma example_model_fields: "model example_model = Some 0" "\<not> isTrained example_model"
  by (simp_all add: example_model_def buildModel_def GRUModel_new_def)

lemma example_tensors:
  "X_train example_prepared = Some (Tensor3d [[[0], [1 / 4]], [[1 / 4], [1 / 2]]] [2, 2, 1])"
  "y_train example_prepared = Some (Tensor2d [[1 / 2], [3 / 4]] [2, 1])"
  "X_test example_prepared = Some (Tensor3d [[[1 / 2], [3 / 4]]] [1, 2, 1])"
  "y_test example_prepared = Some (Tensor2d [[1]] [1, 1])"
  by (simp_all add: example_prepared_def)

lemma example_trained_fields: "model example_trained = Some 0" "isTrained example_trained"
  by (simp_all add: example_trained_def train_def example_model_fields example_tensors
        accepting_fit_def Let_def)


subsection \<open>Reloading\<close>

lemma next_returns:
  "computeReturns (array_sort (compareDates utc_host) (parsedRows utc_host example_csv_next))
     = [1, 1 / 2, 1]"
  by code_simp

lemma next_len: "length (parsedRows utc_host example_csv_next) = 4"
  by code_simp

lemma long_len: "length (parsedRows utc_host long_csv) = 66"
  by code_simp



lemma length_computeReturns: "length (computeReturns xs) = length xs - 1"
  by (induction xs rule: computeReturns.induct) simp_all

lemma Math_min_Min: "xs \<noteq> [] \<Longrightarrow> Math_min xs = Some (Min (set xs))"
  by (cases xs) (simp_all add: foldl_min_Min)

lemma Math_max_Max: "xs \<noteq> [] \<Longrightarrow> Math_max xs = Some (Max (set xs))"
  by (cases xs) (simp_all add: foldl_max_Max)

lemma prepareData_parameters:
  assumes ok: "prepareData W H t s = Inr s'"
  shows "returns s' = returns s \<and> data s' = data s \<and> dateLabels s' = dateLabels s
     \<and> min_v s' = Some (Min (set (returns s'))) \<and> max_v s' = Some (Max (set (returns s')))"
proof -
  from prepareData_Inr_D[OF ok] have ne: "returns s \<noteq> []" and pos: "0 < totalSamplesOf s W H"
    by simp_all
  from prepareData_success[OF ne pos, of t] ok Math_min_Min[OF ne] Math_max_Max[OF ne]
  show ?thesis by (auto simp: Let_def)
qed

lemma prepareData_overwrites:
  assumes eq: "returns a = returns b" "data a = data b" "dateLabels a = dateLabels b"
    and ok: "prepareData W H t a = Inr a'"
  shows "prepareData W H t b = Inr a'"
proof -
  from prepareData_Inr_D[OF ok] have ne: "returns a \<noteq> []" and pos: "0 < totalSamplesOf a W H"
    by simp_all
  have tot: "totalSamplesOf b W H = totalSamplesOf a W H"
    by (simp add: totalSamplesOf_def eq)
  from ne pos have neb: "returns b \<noteq> []" and posb: "0 < totalSamplesOf b W H"
    by (simp_all add: eq tot)
  from prepareData_success[OF ne pos, of t] prepareData_success[OF neb posb, of t] ok eq tot
  show ?thesis
    by (cases a; cases b) (auto simp: Let_def)
qed

lemma reload_like_new:
  assumes p: "parseCSV env content (dispose s) = (s1, e)"
    and ok: "prepareData W H t s1 = Inr s2"
  shows "prepareData W H t (fst (parseCSV env content DataLoader_new)) = Inr s2
     \<and> returns s2 = computeReturns (array_sort (compareDates env) (parsedRows env content))
     \<and> min_v s2 = Some (Min (set (returns s2))) \<and> max_v s2 = Some (Max (set (returns s2)))"
proof -
  let ?n = "fst (parseCSV env content DataLoader_new)"
  from p have s1: "returns s1 = computeReturns (array_sort (compareDates env) (parsedRows env content))"
      "data s1 = Some (array_sort (compareDates env) (parsedRows env content))"
      "dateLabels s1 = map date (parsedRows env content)"
    by (auto simp: parseCSV_fields)
  have n: "returns ?n = returns s1" "data ?n = data s1" "dateLabels ?n = dateLabels s1"
    by (simp_all add: parseCSV_fields s1)
  have "prepareData W H t ?n = Inr s2"
    using prepareData_overwrites[OF n[symmetric] ok] .
  with prepareData_parameters[OF ok] s1 show ?thesis by simp
qed

lemma loadData_succeeds:
  assumes "66 \<le> length (parsedRows env content)"
  shows "snd (loadData env (Inr content) a) = None"
proof -
  obtain s1 pe where p: "parseCSV env content (dispose (app_dataLoader a)) = (s1, pe)"
    by (cases "parseCSV env content (dispose (app_dataLoader a))")
  from p assms have pe: "pe = None"
    by (auto simp: parseCSV_fields)
  from p have "returns s1 = computeReturns (array_sort (compareDates env) (parsedRows env content))"
    by (auto simp: parseCSV_fields)
  then have r: "length (returns s1) = length (parsedRows env content) - 1"
    by (simp add: length_computeReturns length_array_sort)
  with assms have "returns s1 \<noteq> []" "0 < totalSamplesOf s1 60 5"
    by (auto simp: totalSamplesOf_def)
  from prepareData_success[OF this, of "1 / 5"]
  obtain dl' where "prepareData 60 5 (1 / 5) s1 = Inr dl'"
    by (auto simp: Let_def)
  then show ?thesis
    by (simp add: loadData_def loadCSVFromGitHub_def Let_def p pe)
qed





lemma next_parse:
  "returns (fst (parseCSV utc_host example_csv_next s)) = [1, 1 / 2, 1]"
  "snd (parseCSV utc_host example_csv_next s) = Some (InsufficientData 4)"
  by (simp_all add: parseCSV_fields next_returns next_len)

lemma loadData_like_new:
  assumes l: "loadData env (Inr content) a = (a', None)"
  shows "prepareData 60 5 (1 / 5) (fst (parseCSV env content DataLoader_new))
            = Inr (app_dataLoader a')
     \<and> returns (app_dataLoader a')
          = computeReturns (array_sort (compareDates env) (parsedRows env content))
     \<and> min_v (app_dataLoader a') = Some (Min (set (returns (app_dataLoader a'))))
     \<and> max_v (app_dataLoader a') = Some (Max (set (returns (app_dataLoader a'))))
     \<and> app_predictions a' = None \<and> \<not> isTrained (app_model a')"
proof -
  obtain dl pe where p: "parseCSV env content (dispose (app_dataLoader a)) = (dl, pe)"
    by (cases "parseCSV env content (dispose (app_dataLoader a))")
  from l p have pe: "pe = None"
    by (auto simp: loadData_def loadCSVFromGitHub_def Let_def split: option.splits sum.splits)
  from l p pe obtain dl' where ok: "prepareData 60 5 (1 / 5) dl = Inr dl'"
    and a': "a' = a\<lparr>app_dataLoader := dl', app_model := gru_dispose (app_model a),
                     app_predictions := None\<rparr>"
    by (auto simp: loadData_def loadCSVFromGitHub_def Let_def split: sum.splits)
  have dl': "app_dataLoader a' = dl'" by (simp add: a')
  have "app_predictions a' = None" "\<not> isTrained (app_model a')"
    by (simp_all add: a' gru_dispose_def)
  with reload_like_new[OF p ok] show ?thesis
    by (simp add: dl')
qed

lemma long_load:
  "loadData utc_host (Inr long_csv) example_app
     = (fst (loadData utc_host (Inr long_csv) example_app), None)"
proof -
  have "snd (loadData utc_host (Inr long_csv) example_app) = None"
    by (rule loadData_succeeds) (simp add: long_len)
  then show ?thesis by (simp add: prod_eq_iff)
qed

section \<open>The properties\<close>

subsection \<open>C1\<close>



subsection \<open>C2\<close>

text \<open>
  Claim C2. Over the reals, \<open>denormalize\<close> undoes the normalization for every value \<open>x\<close>
  and every pair of parameters: normalization is \<open>(x - min) / range\<close>, the inverse is
  \<open>v * range + min\<close>, and \<open>range\<close> is \<open>max - min\<close>, or 1 when both are equal. For every
  non-empty return series \<open>normalizeReturns\<close> stores the least and the greatest return
  as parameters, and \<open>denormalize\<close> then maps every normalized value, those of the stored
  series included, back to the original one; the series of equal returns is no exception.
\<close>

theorem denormalize_normalize_roundtrip:
  "(min_v s = Some mn \<and> max_v s = Some mx \<longrightarrow>
      denormalize s (normalizeValue mn mx x) = Inr x)
   \<and> normalizeValue mn mx x = (x - mn) / range_of mn mx
   \<and> range_of mn mx = (if mx = mn then 1 else mx - mn)
   \<and> (returns s \<noteq> [] \<longrightarrow>
        (\<exists>s' lo hi. normalizeReturns s = Inr s'
           \<and> lo = Min (set (returns s)) \<and> hi = Max (set (returns s))
           \<and> min_v s' = Some lo \<and> max_v s' = Some hi
           \<and> normalizedData s' = Some (map (normalizeValue lo hi) (returns s))
           \<and> (\<forall>v. denormalize s' (normalizeValue lo hi v) = Inr v)
           \<and> (\<forall>i<length (returns s).
                 denormalize s' (map (normalizeValue lo hi) (returns s) ! i)
                   = Inr (returns s ! i))))"
proof (intro conjI impI)
  assume "min_v s = Some mn \<and> max_v s = Some mx"
  then show "denormalize s (normalizeValue mn mx x) = Inr x"
    by (simp add: denormalize_def denorm_norm)
next
  show "normalizeValue mn mx x = (x - mn) / range_of mn mx"
    by (simp add: normalizeValue_def)
next
  show "range_of mn mx = (if mx = mn then 1 else mx - mn)"
    by (simp add: range_of_def)
next
  assume ne: "returns s \<noteq> []"
  then obtain r rs where rs: "returns s = r # rs" by (cases "returns s") auto
  define lo where "lo = Min (set (returns s))"
  define hi where "hi = Max (set (returns s))"
  have mm: "Math_min (returns s) = Some lo" "Math_max (returns s) = Some hi"
    by (simp_all add: rs lo_def hi_def foldl_min_Min foldl_max_Max)
  define s' where "s' = s\<lparr>min_v := Some lo, max_v := Some hi,
      normalizedData := Some (map (normalizeValue lo hi) (returns s))\<rparr>"
  have nr: "normalizeReturns s = Inr s'"
    using ne mm by (simp add: normalizeReturns_def s'_def)
  have rt: "denormalize s' (normalizeValue lo hi v) = Inr v" for v
    by (simp add: denormalize_def s'_def denorm_norm)
  have "\<forall>i<length (returns s).
          denormalize s' (map (normalizeValue lo hi) (returns s) ! i) = Inr (returns s ! i)"
    by (simp add: rt)
  with nr rt show "\<exists>s' lo hi. normalizeReturns s = Inr s'
           \<and> lo = Min (set (returns s)) \<and> hi = Max (set (returns s))
           \<and> min_v s' = Some lo \<and> max_v s' = Some hi
           \<and> normalizedData s' = Some (map (normalizeValue lo hi) (returns s))
           \<and> (\<forall>v. denormalize s' (normalizeValue lo hi v) = Inr v)
           \<and> (\<forall>i<length (returns s).
                 denormalize s' (map (normalizeValue lo hi) (returns s) ! i)
                   = Inr (returns s ! i))"
    unfolding lo_def[symmetric] hi_def[symmetric]
    by (intro exI[of _ s'] exI[of _ lo] exI[of _ hi]) (simp add: s'_def)
qed

theorem denormalize_normalize_roundtrip_witness:
  "min_v example_prepared = Some 1 \<and> max_v example_prepared = Some 5
   \<and> denormalize example_prepared (normalizeValue 1 5 3) = Inr 3
   \<and> normalizeValue 1 5 3 = 1 / 2
   \<and> returns (example_loaded\<lparr>returns := [2, 2]\<rparr>) \<noteq> []
   \<and> normalizeReturns (example_loaded\<lparr>returns := [2, 2]\<rparr>)
       = Inr (example_loaded\<lparr>returns := [2, 2], min_v := Some 2, max_v := Some 2,
                              normalizedData := Some [0, 0]\<rparr>)
   \<and> denormalize (example_loaded\<lparr>returns := [2, 2], min_v := Some 2, max_v := Some 2,
                                  normalizedData := Some [0, 0]\<rparr>) 0 = Inr 2"
proof -
  have p: "min_v example_prepared = Some 1 \<and> max_v example_prepared = Some 5"
    by (simp add: example_prepared_def)
  from denormalize_normalize_roundtrip[of example_prepared 1 5 3] p
  have a: "denormalize example_prepared (normalizeValue 1 5 3) = Inr 3"
    and b: "normalizeValue 1 5 3 = 1 / 2"
    by (simp_all add: range_of_def)
  let ?s = "example_loaded\<lparr>returns := [2, 2]\<rparr>"
  have ne: "returns ?s \<noteq> []" by simp
  from denormalize_normalize_roundtrip[of ?s 2 2 2] ne
  obtain s' lo hi where n: "normalizeReturns ?s = Inr s'"
    and lh: "lo = Min (set (returns ?s))" "hi = Max (set (returns ?s))"
    and nd: "normalizedData s' = Some (map (normalizeValue lo hi) (returns ?s))"
    and mm: "min_v s' = Some lo" "max_v s' = Some hi"
    and rt: "\<forall>i<length (returns ?s).
               denormalize s' (map (normalizeValue lo hi) (returns ?s) ! i) = Inr (returns ?s ! i)"
    by blast
  have e: "normalizeReturns ?s
       = Inr (example_loaded\<lparr>returns := [2, 2], min_v := Some 2, max_v := Some 2,
                              normalizedData := Some [0, 0]\<rparr>)"
    by (simp add: normalizeReturns_def normalizeValue_def range_of_def)
  with n have s': "s' = example_loaded\<lparr>returns := [2, 2], min_v := Some 2, max_v := Some 2,
                              normalizedData := Some [0, 0]\<rparr>"
    by simp
  from lh have "lo = 2" "hi = 2" by simp_all
  with rt[rule_format, of 0] have "denormalize s' (normalizeValue 2 2 2) = Inr 2" by simp
  then have "denormalize s' 0 = Inr 2" by (simp add: normalizeValue_def)
  then have c: "denormalize (example_loaded\<lparr>returns := [2, 2], min_v := Some 2, max_v := Some 2,
                                  normalizedData := Some [0, 0]\<rparr>) 0 = Inr 2"
    by (simp only: s')
  from p a b ne e c show ?thesis by blast
qed

subsection \<open>C3\<close>



subsection \<open>C4\<close>

text \<open>
  Claim C4. After a successful \<open>prepareData\<close> there is a cut \<open>n\<close> such that the training
  windows are the first \<open>n\<close> windows of the series and the test windows are the others,
  each in the original order: training window \<open>i\<close> starts at index \<open>i < n\<close> of the
  normalized series, test window \<open>j\<close> starts at index \<open>n + j\<close>. This holds for every value of
  the test fraction. The index arrays the source records agree: every training index is
  below every test index, and for a fraction between 0 and 1 they are \<open>0 .. n - 1\<close> and
  \<open>n .. totalSamples - 1\<close>.
\<close>

theorem split_preserves_temporal_order:
  assumes ok: "prepareData W H t s = Inr s'"
  shows "\<exists>nd n. normalizedData s' = Some nd
     \<and> (let seqs = sequencesOf nd (totalSamplesOf s W H) W;
             tgts = targetsOf nd (totalSamplesOf s W H) W H
         in n \<le> length seqs
            \<and> (\<exists>shape. X_train s' = Some (Tensor3d (map (map (\<lambda>v. [v])) (take n seqs)) shape))
            \<and> (\<exists>shape. X_test s' = Some (Tensor3d (map (map (\<lambda>v. [v])) (drop n seqs)) shape))
            \<and> (\<exists>shape. y_train s' = Some (Tensor2d (take n tgts) shape))
            \<and> (\<exists>shape. y_test s' = Some (Tensor2d (drop n tgts) shape))
            \<and> (\<forall>i<n. take n seqs ! i = take W (drop i nd))
            \<and> (\<forall>j<length seqs - n. drop n seqs ! j = take W (drop (n + j) nd))
            \<and> (0 \<le> t \<and> t \<le> 1 \<longrightarrow>
                  trainIndices s' = map int [0..<n]
                  \<and> testIndices s' = map int [n..<length seqs]))
     \<and> (\<forall>i\<in>set (trainIndices s'). \<forall>j\<in>set (testIndices s'). i < j)"
proof -
  from prepareData_Inr_D[OF ok] have ne: "returns s \<noteq> []" and pos: "0 < totalSamplesOf s W H"
    by simp_all
  define tot where "tot = totalSamplesOf s W H"
  define k where "k = splitIndex (nat tot) t"
  from prepareData_success[OF ne pos, of t] ok obtain mn mx where
    s': "s' = s\<lparr>min_v := Some mn, max_v := Some mx,
                  normalizedData := Some (map (normalizeValue mn mx) (returns s)),
                  trainIndices := array_from k (\<lambda>i. i),
                  testIndices := array_from (tot - k) (\<lambda>i. i + k),
                  X_train := Some (Tensor3d (map (map (\<lambda>v. [v]))
                     (js_slice (sequencesOf (map (normalizeValue mn mx) (returns s)) tot W) 0 k))
                                     [k, int W, 1]),
                  y_train := Some (Tensor2d
                     (js_slice (targetsOf (map (normalizeValue mn mx) (returns s)) tot W H) 0 k)
                        [k, int H]),
                  X_test := Some (Tensor3d (map (map (\<lambda>v. [v]))
                     (js_slice_from (sequencesOf (map (normalizeValue mn mx) (returns s)) tot W) k))
                                    [tot - k, int W, 1]),
                  y_test := Some (Tensor2d
                     (js_slice_from (targetsOf (map (normalizeValue mn mx) (returns s)) tot W H) k)
                       [tot - k, int H])\<rparr>"
    unfolding tot_def k_def Let_def by auto
  define nd where "nd = map (normalizeValue mn mx) (returns s)"
  define seqs where "seqs = sequencesOf nd tot W"
  define tgts where "tgts = targetsOf nd tot W H"
  define n where "n = min (nat (if k < 0 then tot + k else k)) (nat tot)"
  have ls: "length seqs = nat tot" "length tgts = nat tot"
    by (simp_all add: seqs_def tgts_def length_sequencesOf length_targetsOf)
  have n_le: "n \<le> length seqs" by (simp add: n_def ls)
  have pre: "js_slice xs 0 k = take n xs" if "length xs = nat tot" for xs :: "'x list"
  proof -
    have "take (nat (if k < 0 then int (length xs) + k else k)) xs = take n xs"
      using that pos by (auto simp: n_def tot_def min_def)
    then show ?thesis by (simp add: js_slice_prefix)
  qed
  have suf: "js_slice_from xs k = drop n xs" if "length xs = nat tot" for xs :: "'x list"
  proof -
    have "drop (nat (if k < 0 then int (length xs) + k else k)) xs = drop n xs"
      using that pos by (auto simp: n_def tot_def min_def)
    then show ?thesis by (simp add: js_slice_suffix)
  qed
  have nth_seqs: "seqs ! i = take W (drop i nd)" if "i < nat tot" for i
    using that by (simp add: seqs_def nth_sequencesOf)
  have w1: "\<forall>i<n. take n seqs ! i = take W (drop i nd)"
    using n_le by (simp add: nth_seqs ls)
  have w2: "\<forall>j<length seqs - n. drop n seqs ! j = take W (drop (n + j) nd)"
    using n_le by (simp add: nth_seqs ls)
  have idx: "0 \<le> t \<and> t \<le> 1 \<longrightarrow>
      trainIndices s' = map int [0..<n] \<and> testIndices s' = map int [n..<length seqs]"
  proof
    assume "0 \<le> t \<and> t \<le> 1"
    with splitIndex_bounds[of t "nat tot"] pos have kb: "0 \<le> k" "k \<le> tot"
      by (simp_all add: k_def tot_def)
    then have "n = nat k" by (simp add: n_def)
    with kb show "trainIndices s' = map int [0..<n] \<and> testIndices s' = map int [n..<length seqs]"
      by (simp add: s' array_from_id array_from_shift ls)
  qed
  have ord: "\<forall>i\<in>set (trainIndices s'). \<forall>j\<in>set (testIndices s'). i < j"
    by (auto simp: s' dest: indices_ordered)
  have nds: "normalizedData s' = Some nd" by (simp add: s' nd_def)
  have x1: "X_train s' = Some (Tensor3d (map (map (\<lambda>v. [v])) (take n seqs)) [k, int W, 1])"
    using pre[OF ls(1)] by (simp add: s' seqs_def nd_def)
  have x2: "X_test s' = Some (Tensor3d (map (map (\<lambda>v. [v])) (drop n seqs)) [tot - k, int W, 1])"
    using suf[OF ls(1)] by (simp add: s' seqs_def nd_def)
  have y1: "y_train s' = Some (Tensor2d (take n tgts) [k, int H])"
    using pre[OF ls(2)] by (simp add: s' tgts_def nd_def)
  have y2: "y_test s' = Some (Tensor2d (drop n tgts) [tot - k, int H])"
    using suf[OF ls(2)] by (simp add: s' tgts_def nd_def)
  show ?thesis
    unfolding Let_def tot_def[symmetric]
    apply (rule exI[of _ nd], rule exI[of _ n])
    unfolding seqs_def[symmetric] tgts_def[symmetric]
    using nds n_le x1 x2 y1 y2 w1 w2 idx ord by blast
qed

theorem split_preserves_temporal_order_witness:
  "prepareData 2 1 (1 / 5) example_loaded = Inr example_prepared
   \<and> trainIndices example_prepared = [0, 1] \<and> testIndices example_prepared = [2]
   \<and> (0 :: int) < 2 \<and> (1 :: int) < 2
   \<and> X_train example_prepared = Some (Tensor3d [[[0], [1 / 4]], [[1 / 4], [1 / 2]]] [2, 2, 1])
   \<and> X_test example_prepared = Some (Tensor3d [[[1 / 2], [3 / 4]]] [1, 2, 1])"
proof -
  from split_preserves_temporal_order[OF example_prepareData]
  have "\<forall>i\<in>set (trainIndices example_prepared). \<forall>j\<in>set (testIndices example_prepared). i < j"
    by blast
  moreover have "trainIndices example_prepared = [0, 1]" "testIndices example_prepared = [2]"
    by (simp_all add: example_prepared_def)
  ultimately show ?thesis
    using example_prepareData by (simp add: example_tensors)
qed

subsection \<open>C5\<close>

text \<open>The claim as stated, refuted at concrete inputs.\<close>

theorem dispose_keeps_parameters_counterexample:
  "snd (loadData utc_host (Inr long_csv) example_app) = None
   \<and> min_v (dispose (app_dataLoader (fst (loadData utc_host (Inr long_csv) example_app))))
       \<noteq> None
   \<and> max_v (dispose (app_dataLoader (fst (loadData utc_host (Inr long_csv) example_app))))
       \<noteq> None
   \<and> returns (dispose (app_dataLoader (fst (loadData utc_host (Inr long_csv) example_app))))
       \<noteq> []
   \<and> prepareData 2 1 (1 / 5) example_loaded = Inr example_prepared
   \<and> min_v (dispose example_prepared) = Some 1
   \<and> max_v (dispose example_prepared) = Some 5
   \<and> returns (dispose example_prepared) = [1, 2, 3, 4, 5]
   \<and> denormalize (dispose example_prepared) (1 / 2) = Inr 3
   \<and> snd (loadData utc_host (Inr example_csv_next) example_app)
       = Some (FailedToLoad (InsufficientData 4))
   \<and> returns (app_dataLoader (fst (loadData utc_host (Inr example_csv_next) example_app)))
       = [1, 1 / 2, 1]
   \<and> min_v (app_dataLoader (fst (loadData utc_host (Inr example_csv_next) example_app)))
       = Some 1
   \<and> max_v (app_dataLoader (fst (loadData utc_host (Inr example_csv_next) example_app)))
       = Some 5"
proof -
  have a: "min_v (dispose example_prepared) = Some 1" "max_v (dispose example_prepared) = Some 5"
    "returns (dispose example_prepared) = [1, 2, 3, 4, 5]"
    "denormalize (dispose example_prepared) (1 / 2) = Inr 3"
    by (simp_all add: dispose_def example_prepared_def example_returns denormalize_def
          range_of_def)
  obtain s1 where p: "parseCSV utc_host example_csv_next (dispose example_prepared)
      = (s1, Some (InsufficientData 4))"
    using next_parse(2)[of "dispose example_prepared"]
    by (cases "parseCSV utc_host example_csv_next (dispose example_prepared)") simp
  from p have s1: "returns s1 = [1, 1 / 2, 1]"
    using next_parse(1)[of "dispose example_prepared"] by simp
  from p have mm: "min_v s1 = Some 1" "max_v s1 = Some 5"
    by (auto simp: parseCSV_fields a)
  have l: "loadData utc_host (Inr example_csv_next) example_app
      = (example_app\<lparr>app_dataLoader := dispose example_prepared,
                       app_model := gru_dispose example_trained,
                       app_predictions := None, app_dataLoader := s1\<rparr>,
         Some (FailedToLoad (InsufficientData 4)))"
    by (simp add: loadData_def loadCSVFromGitHub_def Let_def example_app_def p)
  let ?dl = "app_dataLoader (fst (loadData utc_host (Inr long_csv) example_app))"
  from loadData_like_new[OF long_load]
  have ok: "prepareData 60 5 (1 / 5) (fst (parseCSV utc_host long_csv DataLoader_new)) = Inr ?dl"
    and mn: "min_v ?dl = Some (Min (set (returns ?dl)))"
    and mx: "max_v ?dl = Some (Max (set (returns ?dl)))"
    by simp_all
  from prepareData_Inr_D[OF ok] prepareData_parameters[OF ok]
  have "returns ?dl \<noteq> []" by simp
  with mn mx have full: "min_v (dispose ?dl) \<noteq> None" "max_v (dispose ?dl) \<noteq> None"
      "returns (dispose ?dl) \<noteq> []"
    by (simp_all add: dispose_def)
  have "snd (loadData utc_host (Inr long_csv) example_app) = None"
    using long_load by (simp add: prod_eq_iff)
  with full a s1 mm example_prepareData show ?thesis
    by (simp add: l)
qed

text \<open>
  Claim C5, amended. \<open>dispose\<close> clears the four train and test tensors and the normalized
  series. The other artifacts are replaced on the way to the next prepared data set:
  \<open>parseCSV\<close> assigns the rows, the date labels and the returns, \<open>prepareData\<close> assigns the
  normalization parameters, the normalized series, the indices and the tensors. So after
  a reload that completes (\<open>dispose\<close>, \<open>parseCSV\<close>, then a successful \<open>prepareData\<close>; in the
  application, a \<open>loadData\<close> that reports no error) the state of the loader is the one a new
  loader gets from the same text: the returns are those of the new text and the parameters
  are their least and greatest value, whatever the previous data set was.

  As stated the claim fails: \<open>dispose\<close> has no assignment to the returns or to the
  parameters. They are still there after \<open>dispose\<close>, and when the reload stops in
  \<open>parseCSV\<close> (the second file below has four rows) the loader holds the returns of the
  new text beside the parameters of the previous one.
\<close>

theorem dispose_and_reload:
  "X_train (dispose s) = None \<and> y_train (dispose s) = None \<and> X_test (dispose s) = None
   \<and> y_test (dispose s) = None \<and> normalizedData (dispose s) = None
   \<and> (parseCSV env content (dispose s) = (s1, e) \<and> prepareData W H t s1 = Inr s2 \<longrightarrow>
        prepareData W H t (fst (parseCSV env content DataLoader_new)) = Inr s2
        \<and> returns s2 = computeReturns (array_sort (compareDates env) (parsedRows env content))
        \<and> min_v s2 = Some (Min (set (returns s2)))
        \<and> max_v s2 = Some (Max (set (returns s2))))
   \<and> (loadData env (Inr content) a = (a', None) \<longrightarrow>
        prepareData 60 5 (1 / 5) (fst (parseCSV env content DataLoader_new))
          = Inr (app_dataLoader a')
        \<and> returns (app_dataLoader a')
            = computeReturns (array_sort (compareDates env) (parsedRows env content))
        \<and> min_v (app_dataLoader a') = Some (Min (set (returns (app_dataLoader a'))))
        \<and> max_v (app_dataLoader a') = Some (Max (set (returns (app_dataLoader a'))))
        \<and> app_predictions a' = None \<and> \<not> isTrained (app_model a'))"
proof (intro conjI impI)
  show "X_train (dispose s) = None" "y_train (dispose s) = None" "X_test (dispose s) = None"
    "y_test (dispose s) = None" "normalizedData (dispose s) = None"
    by (simp_all add: dispose_def)
next
  assume "parseCSV env content (dispose s) = (s1, e) \<and> prepareData W H t s1 = Inr s2"
  then have "prepareData W H t (fst (parseCSV env content DataLoader_new)) = Inr s2
     \<and> returns s2 = computeReturns (array_sort (compareDates env) (parsedRows env content))
     \<and> min_v s2 = Some (Min (set (returns s2))) \<and> max_v s2 = Some (Max (set (returns s2)))"
    using reload_like_new by blast
  then show "prepareData W H t (fst (parseCSV env content DataLoader_new)) = Inr s2"
    "returns s2 = computeReturns (array_sort (compareDates env) (parsedRows env content))"
    "min_v s2 = Some (Min (set (returns s2)))" "max_v s2 = Some (Max (set (returns s2)))"
    by simp_all
next
  assume l: "loadData env (Inr content) a = (a', None)"
  from loadData_like_new[OF l]
  show "prepareData 60 5 (1 / 5) (fst (parseCSV env content DataLoader_new))
          = Inr (app_dataLoader a')"
    "returns (app_dataLoader a')
       = computeReturns (array_sort (compareDates env) (parsedRows env content))"
    "min_v (app_dataLoader a') = Some (Min (set (returns (app_dataLoader a'))))"
    "max_v (app_dataLoader a') = Some (Max (set (returns (app_dataLoader a'))))"
    "app_predictions a' = None" "\<not> isTrained (app_model a')"
    by simp_all
qed

theorem dispose_and_reload_witness:
  "(\<exists>s2. prepareData 1 1 (1 / 5)
            (fst (parseCSV utc_host example_csv_next (dispose example_prepared))) = Inr s2
         \<and> prepareData 1 1 (1 / 5) (fst (parseCSV utc_host example_csv_next DataLoader_new))
             = Inr s2
         \<and> returns s2 = [1, 1 / 2, 1] \<and> min_v s2 = Some (1 / 2) \<and> max_v s2 = Some 1)
   \<and> snd (loadData utc_host (Inr long_csv) example_app) = None
   \<and> prepareData 60 5 (1 / 5) (fst (parseCSV utc_host long_csv DataLoader_new))
       = Inr (app_dataLoader (fst (loadData utc_host (Inr long_csv) example_app)))
   \<and> app_predictions (fst (loadData utc_host (Inr long_csv) example_app)) = None"
proof -
  let ?s1 = "fst (parseCSV utc_host example_csv_next (dispose example_prepared))"
  let ?e = "snd (parseCSV utc_host example_csv_next (dispose example_prepared))"
  have p: "parseCSV utc_host example_csv_next (dispose example_prepared) = (?s1, ?e)"
    by simp
  have r: "returns ?s1 = [1, 1 / 2, 1]" by (rule next_parse)
  then have "returns ?s1 \<noteq> []" "0 < totalSamplesOf ?s1 1 1"
    by (simp_all add: totalSamplesOf_def)
  from prepareData_success[OF this, of "1 / 5"]
  obtain s2 where ok: "prepareData 1 1 (1 / 5) ?s1 = Inr s2"
    by (auto simp: Let_def)
  from dispose_and_reload[of example_prepared utc_host example_csv_next ?s1 ?e 1 1 "1 / 5" s2] p ok
  have n: "prepareData 1 1 (1 / 5) (fst (parseCSV utc_host example_csv_next DataLoader_new)) = Inr s2"
    and rs: "returns s2 = computeReturns (array_sort (compareDates utc_host)
                             (parsedRows utc_host example_csv_next))"
    and mn: "min_v s2 = Some (Min (set (returns s2)))"
    and mx: "max_v s2 = Some (Max (set (returns s2)))"
    by blast+
  from rs have rs': "returns s2 = [1, 1 / 2, 1]" by (simp add: next_returns)
  with mn mx have m: "min_v s2 = Some (1 / 2)" "max_v s2 = Some 1" by simp_all
  let ?a = "fst (loadData utc_host (Inr long_csv) example_app)"
  have l: "loadData utc_host (Inr long_csv) example_app = (?a, None)"
    by (rule long_load)
  then have ls: "snd (loadData utc_host (Inr long_csv) example_app) = None"
    by (simp add: prod_eq_iff)
  from dispose_and_reload[of example_prepared utc_host long_csv _ _ _ _ _ _ example_app ?a] l
  have f: "prepareData 60 5 (1 / 5) (fst (parseCSV utc_host long_csv DataLoader_new))
       = Inr (app_dataLoader ?a)"
    and pr: "app_predictions ?a = None"
    by blast+
  from ok n rs' m ls f pr show ?thesis by blast
qed

subsection \<open>C6\<close>

text \<open>
  Claim C6. \<open>displayPredictions\<close> starts from the price of the last row and compounds:
  card \<open>k\<close> shows the predicted return \<open>k\<close> and the price of card \<open>k - 1\<close> (the last known
  price for the first card) times \<open>1 + return k\<close>. From 100 and the returns 0.01 and -0.02
  the prices are 101 and 98.98.
\<close>

theorem displayPredictions_compounds:
  "(data dl = Some d \<and> d \<noteq> [] \<longrightarrow>
      (\<exists>cards. displayPredictions dl (Some preds) = Inr cards
         \<and> length cards = length preds
         \<and> (\<forall>k<length preds.
               predictedReturn (cards ! k) = preds ! k
               \<and> expectedPrice (cards ! k) =
                   (if k = 0 then price (last d) else expectedPrice (cards ! (k - 1)))
                   * (1 + preds ! k))))
   \<and> map expectedPrice (predictionCards 100 0 [0.01, - 0.02]) = [101, 98.98]"
proof (intro conjI impI)
  assume a: "data dl = Some d \<and> d \<noteq> []"
  have "\<forall>k<length preds.
          predictedReturn (predictionCards (price (last d)) 0 preds ! k) = preds ! k
          \<and> expectedPrice (predictionCards (price (last d)) 0 preds ! k) =
              (if k = 0 then price (last d)
               else expectedPrice (predictionCards (price (last d)) 0 preds ! (k - 1)))
              * (1 + preds ! k)"
    using pc_step[of _ preds "price (last d)" 0] pc_return[of _ preds "price (last d)" 0]
    by blast
  with a show "\<exists>cards. displayPredictions dl (Some preds) = Inr cards
         \<and> length cards = length preds
         \<and> (\<forall>k<length preds.
               predictedReturn (cards ! k) = preds ! k
               \<and> expectedPrice (cards ! k) =
                   (if k = 0 then price (last d) else expectedPrice (cards ! (k - 1)))
                   * (1 + preds ! k))"
    by (simp add: displayPredictions_def pc_len)
next
  show "map expectedPrice (predictionCards 100 0 [0.01, - 0.02]) = [101, 98.98]"
    by simp
qed

theorem displayPredictions_compounds_witness:
  "data (DataLoader_new\<lparr>data := Some [\<lparr>date = ''01.01.2020'', price = 100\<rparr>]\<rparr>)
     = Some [\<lparr>date = ''01.01.2020'', price = 100\<rparr>]
   \<and> [\<lparr>date = ''01.01.2020'', price = 100\<rparr>] \<noteq> []
   \<and> displayPredictions (DataLoader_new\<lparr>data := Some [\<lparr>date = ''01.01.2020'', price = 100\<rparr>]\<rparr>)
        (Some [0.01, - 0.02])
       = Inr [\<lparr>day = 1, predictedReturn = 0.01, expectedPrice = 101\<rparr>,
              \<lparr>day = 2, predictedReturn = - 0.02, expectedPrice = 98.98\<rparr>]
   \<and> (98.98 :: real) = 101 * (1 + - 0.02)"
proof -
  let ?dl = "DataLoader_new\<lparr>data := Some [\<lparr>date = ''01.01.2020'', price = 100\<rparr>]\<rparr>"
  let ?d = "[\<lparr>date = ''01.01.2020'', price = 100\<rparr>]"
  have h: "data ?dl = Some ?d \<and> ?d \<noteq> []" by simp
  from displayPredictions_compounds[of ?dl ?d "[0.01, - 0.02]"] h
  obtain cards where c: "displayPredictions ?dl (Some [0.01, - 0.02]) = Inr cards"
    and st: "\<forall>k<length [0.01, - 0.02 :: real].
               predictedReturn (cards ! k) = [0.01, - 0.02] ! k
               \<and> expectedPrice (cards ! k) =
                   (if k = 0 then price (last ?d) else expectedPrice (cards ! (k - 1)))
                   * (1 + [0.01, - 0.02] ! k)"
    by blast
  have e: "displayPredictions ?dl (Some [0.01, - 0.02])
       = Inr [\<lparr>day = 1, predictedReturn = 0.01, expectedPrice = 101\<rparr>,
              \<lparr>day = 2, predictedReturn = - 0.02, expectedPrice = 98.98\<rparr>]"
    by (simp add: displayPredictions_def)
  with c have cards: "cards = [\<lparr>day = 1, predictedReturn = 0.01, expectedPrice = 101\<rparr>,
              \<lparr>day = 2, predictedReturn = - 0.02, expectedPrice = 98.98\<rparr>]"
    by simp
  from st have "expectedPrice (cards ! 1) = expectedPrice (cards ! 0) * (1 + - 0.02)"
    by simp
  with cards have "(98.98 :: real) = 101 * (1 + - 0.02)" by simp
  with h e show ?thesis by simp
qed

subsection \<open>C7\<close>

text \<open>
  Claim C7. \<open>predict\<close> fails with the error "Model not trained", and gives no output, on a
  new model object, on every object whose \<open>isTrained\<close> is false or whose model is absent,
  and after every sequence of \<open>buildModel\<close>, \<open>train\<close> and \<open>dispose\<close> calls on a new object in
  which no call of \<open>train\<close> succeeded. (The one other assignment of true to \<open>isTrained\<close> in
  the source is in \<open>loadWeights\<close>, which no caller in the repository uses.)
\<close>

theorem predict_before_training_fails:
  fixes g :: "('m, 'h) gru" and cs :: "('m, 'h) gru_call list"
  shows
  "predict tfp X (GRUModel_new w h :: ('m, 'h) gru) = Inl ModelNotTrained
   \<and> (\<not> isTrained g \<or> model g = None \<longrightarrow> predict tfp X g = Inl ModelNotTrained)
   \<and> (\<not> some_train_succeeded cs (GRUModel_new w h) \<longrightarrow>
        predict tfp X (run_calls cs (GRUModel_new w h)) = Inl ModelNotTrained)"
proof -
  let ?g0 = "GRUModel_new w h :: ('m, 'h) gru"
  have new: "\<not> isTrained ?g0"
    by (simp add: GRUModel_new_def)
  have fresh: "predict tfp X ?g0 = Inl ModelNotTrained"
    using new by (rule predict_untrained)
  have state: "\<not> isTrained g \<or> model g = None \<longrightarrow> predict tfp X g = Inl ModelNotTrained"
    by (auto simp: predict_def split: option.splits)
  have calls: "\<not> some_train_succeeded cs ?g0 \<longrightarrow>
      predict tfp X (run_calls cs ?g0) = Inl ModelNotTrained"
  proof
    assume "\<not> some_train_succeeded cs ?g0"
    with new have "\<not> isTrained (run_calls cs ?g0)"
      by (rule run_calls_untrained)
    then show "predict tfp X (run_calls cs ?g0) = Inl ModelNotTrained"
      by (rule predict_untrained)
  qed
  from fresh state calls show ?thesis by blast
qed

theorem predict_before_training_fails_witness:
  "\<not> some_train_succeeded example_calls (GRUModel_new 2 1)
   \<and> predict (\<lambda>_ _. Inr [[0]]) (X_test example_prepared) (run_calls example_calls (GRUModel_new 2 1))
       = Inl ModelNotTrained
   \<and> \<not> isTrained example_model
   \<and> predict (\<lambda>_ _. Inr [[0]]) (X_test example_prepared) example_model = Inl ModelNotTrained"
proof -
  have h: "\<not> some_train_succeeded example_calls (GRUModel_new 2 1)"
    by (simp add: example_calls_def call_succeeds_as_train_def run_call_def train_def
          buildModel_def gru_dispose_def GRUModel_new_def example_tensors Let_def)
  from predict_before_training_fails[of "\<lambda>_ _. Inr [[0]]" "X_test example_prepared" 2 1
      example_model example_calls] h example_model_fields(2)
  show ?thesis by blast
qed

subsection \<open>C8\<close>

text \<open>
  Claim C8. \<open>evaluate\<close> fails with "Model not trained" when \<open>isTrained\<close> is false or the
  model is absent. When the library's \<open>evaluate\<close> raises, the error reaches the caller. A
  result is returned only when the library gave its scalars for the tensors passed, the
  test tensors; it holds the first as \<open>loss\<close>, the second as \<open>mse\<close>, and \<open>rmse\<close> is
  \<open>Math.sqrt(mse)\<close>, the square root of \<open>mse\<close> when \<open>mse\<close> is not negative. No default value
  stands in for a failure.
\<close>

theorem evaluate_errors_and_rmse:
  "(\<not> isTrained g \<or> model g = None \<longrightarrow> evaluate tfe X Y g = Inl ModelNotTrained)
   \<and> (isTrained g \<and> model g = Some m \<and> tfe m x y = Inl msg \<longrightarrow>
        evaluate tfe (Some x) (Some y) g = Inl (External msg))
   \<and> (isTrained g \<and> model g = Some m \<and> tfe m x y = Inr (l # e # rest) \<longrightarrow>
        evaluate tfe (Some x) (Some y) g = Inr \<lparr>loss = l, mse = e, rmse = Math_sqrt e\<rparr>)
   \<and> (\<forall>r. evaluate tfe X Y g = Inr r \<longrightarrow>
        rmse r = Math_sqrt (mse r)
        \<and> (0 \<le> mse r \<longrightarrow> rmse r = Some (sqrt (mse r)))
        \<and> (\<exists>m' x' y' rest'. isTrained g \<and> model g = Some m' \<and> X = Some x' \<and> Y = Some y'
              \<and> tfe m' x' y' = Inr (loss r # mse r # rest')))"
  by (auto simp: evaluate_def Math_sqrt_def split: option.splits sum.splits list.splits)

theorem evaluate_errors_and_rmse_witness:
  "\<not> isTrained example_model
   \<and> evaluate (\<lambda>_ _ _. Inr [4, 4]) (X_test example_prepared) (y_test example_prepared)
        example_model = Inl ModelNotTrained
   \<and> isTrained example_trained \<and> model example_trained = Some 0
   \<and> evaluate (\<lambda>_ _ _. Inl ''evaluate failed'') (X_test example_prepared)
        (y_test example_prepared) example_trained = Inl (External ''evaluate failed'')
   \<and> evaluate (\<lambda>_ _ _. Inr [4, 4]) (X_test example_prepared) (y_test example_prepared)
        example_trained = Inr \<lparr>loss = 4, mse = 4, rmse = Some 2\<rparr>"
proof -
  note T = evaluate_errors_and_rmse
  from T[of example_model "\<lambda>_ _ _. Inr [4, 4]" "X_test example_prepared"
      "y_test example_prepared"] example_model_fields(2)
  have a: "evaluate (\<lambda>_ _ _. Inr [4, 4]) (X_test example_prepared) (y_test example_prepared)
        example_model = Inl ModelNotTrained"
    by blast
  from T[of example_trained "\<lambda>_ _ _. Inl ''evaluate failed''" _ _ 0
      "Tensor3d [[[1 / 2], [3 / 4]]] [1, 2, 1]" "Tensor2d [[1]] [1, 1]" "''evaluate failed''"]
    example_trained_fields
  have b: "evaluate (\<lambda>_ _ _. Inl ''evaluate failed'') (X_test example_prepared)
        (y_test example_prepared) example_trained = Inl (External ''evaluate failed'')"
    by (simp add: example_tensors)
  from T[of example_trained "\<lambda>_ _ _. Inr [4, 4]" _ _ 0
      "Tensor3d [[[1 / 2], [3 / 4]]] [1, 2, 1]" "Tensor2d [[1]] [1, 1]" _ 4 4 "[]"]
    example_trained_fields
  have c: "evaluate (\<lambda>_ _ _. Inr [4, 4]) (X_test example_prepared) (y_test example_prepared)
        example_trained = Inr \<lparr>loss = 4, mse = 4, rmse = Some 2\<rparr>"
    by (simp add: example_tensors Math_sqrt_def)
  from a b c example_model_fields example_trained_fields show ?thesis by simp
qed

subsection \<open>C9\<close>




subsection \<open>C10\<close>



end
